theory Spec2Isabelle
  imports Main "HOL-Library.AList"
begin

section \<open>Python values, dictionaries and exceptions\<close>

text \<open>
  The adapter of \<^verbatim>\<open>podman_ai_lab.py\<close> marshals Python dictionaries. A Python value is
  a \<open>pyval\<close>; a dictionary is an association list in insertion order, read with
  \<open>map_of\<close> and written with \<open>AList.update\<close>, which replaces the value of a key that is
  present and appends a new key, as a Python \<^verbatim>\<open>dict\<close> does. Objects of the host framework
  that the adapter only hands on (sampling parameters, images, response envelopes) are
  Python values too.
\<close>

datatype pyval =
    PNone
  | PBool bool
  | PInt int
  | PStr string
  | PList "pyval list"
  | PDict "(string \<times> pyval) list"

type_synonym dict = "(string \<times> pyval) list"

datatype error =
    ConnectionError string
  | RuntimeError string
  | NotImplementedError string
  | ValueError string
  | AssertionError string
  | KeyError string
  | TypeError string
  | OtherError string

text \<open>\<^verbatim>\<open>k in d\<close>, \<^verbatim>\<open>d.get(k)\<close>, \<^verbatim>\<open>d[k]\<close> and \<^verbatim>\<open>d[k] = v\<close>.\<close>

definition has_key :: "string \<Rightarrow> dict \<Rightarrow> bool" where
  "has_key k d = (k \<in> fst ` set d)"

definition py_get :: "dict \<Rightarrow> string \<Rightarrow> pyval" where
  "py_get d k = (case map_of d k of None \<Rightarrow> PNone | Some v \<Rightarrow> v)"

definition subscript :: "dict \<Rightarrow> string \<Rightarrow> error + pyval" where
  "subscript d k = (case map_of d k of None \<Rightarrow> Inl (KeyError k) | Some v \<Rightarrow> Inr v)"

definition dict_set :: "dict \<Rightarrow> string \<Rightarrow> pyval \<Rightarrow> dict" where
  "dict_set d k v = AList.update k v d"

text \<open>A dictionary display \<^verbatim>\<open>{k1: v1, **d, k2: v2}\<close>: the items are stored left to right.\<close>

definition dict_display :: "(string \<times> pyval) list \<Rightarrow> dict" where
  "dict_display items = foldl (\<lambda>d (k, v). dict_set d k v) [] items"

text \<open>Truth value of a Python value, as \<^verbatim>\<open>if\<close> tests it.\<close>

fun truthy :: "pyval \<Rightarrow> bool" where
  "truthy PNone = False"
| "truthy (PBool b) = b"
| "truthy (PInt i) = (i \<noteq> 0)"
| "truthy (PStr s) = (s \<noteq> [])"
| "truthy (PList xs) = (xs \<noteq> [])"
| "truthy (PDict d) = (d \<noteq> [])"

text \<open>A list comprehension over an awaited call: the first exception ends it.\<close>

fun traverse :: "('a \<Rightarrow> error + 'b) \<Rightarrow> 'a list \<Rightarrow> error + 'b list" where
  "traverse f [] = Inr []"
| "traverse f (x # xs) =
     (case f x of
        Inl e \<Rightarrow> Inl e
      | Inr y \<Rightarrow> (case traverse f xs of Inl e \<Rightarrow> Inl e | Inr ys \<Rightarrow> Inr (y # ys)))"

section \<open>Requests of the host framework\<close>

text \<open>
  \<^verbatim>\<open>InterleavedContent\<close> is a string, one content item, or a list of content items; an
  item is an image or a text. A \<^verbatim>\<open>Message\<close> has a role and a content.
\<close>

datatype content_item = ImageContentItem pyval | TextContentItem string

datatype interleaved_content =
    ContentStr string
  | ContentItem content_item
  | ContentList "content_item list"

record message =
  role :: string
  content :: interleaved_content

record response_format =
  type :: string
  json_schema :: pyval

text \<open>
  The fields \<^verbatim>\<open>_get_params\<close> reads are common to both request classes; a chat request
  adds the messages, a completion request its content (field \<^verbatim>\<open>content\<close> of
  \<^verbatim>\<open>CompletionRequest\<close>, here \<open>raw_content\<close>). The tool and log-probability fields are
  never read by the adapter.
\<close>

record request_base =
  model :: string
  sampling_params :: pyval
  response_format :: "response_format option"
  stream :: "bool option"

record chat_completion_request = request_base +
  messages :: "message list"

record completion_request = request_base +
  raw_content :: interleaved_content

datatype request =
    ChatCompletionRequest chat_completion_request
  | CompletionRequest completion_request

section \<open>Collaborators outside the repository\<close>

text \<open>
  The helpers imported from the host framework and the transport client are parameters
  of the model. An awaited helper returns a value or raises; the client's
  \<^verbatim>\<open>generate\<close> and \<^verbatim>\<open>chat\<close> return one response or a stream of chunks.
\<close>

datatype reply = Response dict | ResponseStream "dict list" "error option"

text \<open>Field \<^verbatim>\<open>text\<close> of the choice is \<open>choice_text\<close> here.\<close>

record OpenAICompatCompletionChoice =
  finish_reason :: pyval
  choice_text :: pyval

record OpenAICompatCompletionResponse =
  choices :: "OpenAICompatCompletionChoice list"

text \<open>
  A generator, run to its end: the items it yielded and the exception that ended it,
  if one did.
\<close>

type_synonym 'a generator = "'a list \<times> error option"

record host =
  get_sampling_options :: "pyval \<Rightarrow> dict"
  request_has_media :: "request \<Rightarrow> bool"
  chat_completion_request_to_prompt :: "chat_completion_request \<Rightarrow> string \<Rightarrow> error + string"
  completion_request_to_prompt :: "completion_request \<Rightarrow> error + string"
  convert_image_content_to_url :: "pyval \<Rightarrow> bool \<Rightarrow> bool \<Rightarrow> error + string"
  process_completion_response :: "OpenAICompatCompletionResponse \<Rightarrow> error + pyval"
  process_completion_stream_response ::
    "OpenAICompatCompletionResponse generator \<Rightarrow> pyval generator"
  process_chat_completion_response ::
    "OpenAICompatCompletionResponse \<Rightarrow> chat_completion_request \<Rightarrow> error + pyval"
  process_chat_completion_stream_response ::
    "OpenAICompatCompletionResponse generator \<Rightarrow> chat_completion_request \<Rightarrow> pyval generator"
  client_list :: "string \<Rightarrow> error + pyval"
  client_generate :: "string \<Rightarrow> dict \<Rightarrow> error + reply"
  client_chat :: "string \<Rightarrow> dict \<Rightarrow> error + reply"

text \<open>Every request the adapter issues to the transport is appended to a log.\<close>

datatype call = ListCall string | GenerateCall string dict | ChatCall string dict

record PodmanAILabInferenceAdapter =
  url :: string

section \<open>The adapter\<close>

subsection \<open>\<^verbatim>\<open>initialize\<close> and \<^verbatim>\<open>embeddings\<close>\<close>

definition initialize ::
  "host \<Rightarrow> PodmanAILabInferenceAdapter \<Rightarrow> call list \<Rightarrow> (error + unit) \<times> call list" where
  "initialize h self log =
     (case client_list h (url self) of
        Inl (ConnectionError m) \<Rightarrow>
          (Inl (RuntimeError ''Podman AI Lab Server is not running, start it using Podman Desktop''),
           log @ [ListCall (url self)])
      | Inl e \<Rightarrow> (Inl e, log @ [ListCall (url self)])
      | Inr r \<Rightarrow> (Inr (), log @ [ListCall (url self)]))"

definition embeddings ::
  "PodmanAILabInferenceAdapter \<Rightarrow> string \<Rightarrow> pyval \<Rightarrow> pyval \<Rightarrow> int option \<Rightarrow> pyval
     \<Rightarrow> error + pyval" where
  "embeddings self model_id contents text_truncation output_dimension task_type =
     Inl (NotImplementedError ''embeddings endpoint is not implemented'')"

subsection \<open>\<^verbatim>\<open>convert_message_to_openai_dict_for_podman_ai_lab\<close>\<close>

text \<open>
  The inner \<^verbatim>\<open>_convert_content\<close> takes an image item, a text item or a string; anything
  else fails its assertion \<^verbatim>\<open>isinstance(text, str)\<close>.
\<close>

fun convert_content :: "host \<Rightarrow> message \<Rightarrow> interleaved_content \<Rightarrow> error + pyval" where
  "convert_content h message (ContentItem (ImageContentItem img)) =
     (case convert_image_content_to_url h img True False of
        Inl e \<Rightarrow> Inl e
      | Inr u \<Rightarrow>
          Inr (PDict (dict_display [(''role'', PStr (role message)), (''images'', PList [PStr u])])))"
| "convert_content h message (ContentItem (TextContentItem t)) =
     Inr (PDict (dict_display [(''role'', PStr (role message)), (''content'', PStr t)]))"
| "convert_content h message (ContentStr s) =
     Inr (PDict (dict_display [(''role'', PStr (role message)), (''content'', PStr s)]))"
| "convert_content h message (ContentList cs) = Inl (AssertionError [])"

definition convert_message_to_openai_dict_for_podman_ai_lab ::
  "host \<Rightarrow> message \<Rightarrow> error + pyval list" where
  "convert_message_to_openai_dict_for_podman_ai_lab h message =
     (case content message of
        ContentList cs \<Rightarrow> traverse (\<lambda>c. convert_content h message (ContentItem c)) cs
      | c \<Rightarrow> (case convert_content h message c of Inl e \<Rightarrow> Inl e | Inr d \<Rightarrow> Inr [d]))"

subsection \<open>\<^verbatim>\<open>_get_params\<close>\<close>

text \<open>The fields read through \<^verbatim>\<open>request.\<close>\<open>\<dots>\<close> on either request class.\<close>

fun request_model :: "request \<Rightarrow> string" where
  "request_model (ChatCompletionRequest r) = model r"
| "request_model (CompletionRequest r) = model r"

fun request_sampling_params :: "request \<Rightarrow> pyval" where
  "request_sampling_params (ChatCompletionRequest r) = sampling_params r"
| "request_sampling_params (CompletionRequest r) = sampling_params r"

fun request_response_format :: "request \<Rightarrow> response_format option" where
  "request_response_format (ChatCompletionRequest r) = response_format r"
| "request_response_format (CompletionRequest r) = response_format r"

fun request_stream :: "request \<Rightarrow> pyval" where
  "request_stream (ChatCompletionRequest r) = (case stream r of None \<Rightarrow> PNone | Some b \<Rightarrow> PBool b)"
| "request_stream (CompletionRequest r) = (case stream r of None \<Rightarrow> PNone | Some b \<Rightarrow> PBool b)"

text \<open>
  Lines 185 to 189: the sampling options of the host, with the value of \<^verbatim>\<open>max_tokens\<close>
  stored under \<^verbatim>\<open>num_predict\<close> as well when it is not \<^verbatim>\<open>None\<close>.
\<close>

definition sampling_options_of :: "host \<Rightarrow> request \<Rightarrow> dict" where
  "sampling_options_of h request =
     (let sampling_options = get_sampling_options h (request_sampling_params request)
      in if py_get sampling_options ''max_tokens'' \<noteq> PNone
         then dict_set sampling_options ''num_predict'' (py_get sampling_options ''max_tokens'')
         else sampling_options)"

text \<open>Lines 191 to 208: \<^verbatim>\<open>input_dict\<close> after the branch on the request class.\<close>

fun input_dict_of :: "host \<Rightarrow> request \<Rightarrow> error + dict" where
  "input_dict_of h (ChatCompletionRequest r) =
     (if request_has_media h (ChatCompletionRequest r) \<or> model r = []
      then (case traverse (convert_message_to_openai_dict_for_podman_ai_lab h) (messages r) of
              Inl e \<Rightarrow> Inl e
            | Inr contents \<Rightarrow> Inr (dict_set [] ''messages'' (PList (concat contents))))
      else (case chat_completion_request_to_prompt h r (model r) of
              Inl e \<Rightarrow> Inl e
            | Inr p \<Rightarrow> Inr (dict_set (dict_set [] ''raw'' (PBool True)) ''prompt'' (PStr p))))"
| "input_dict_of h (CompletionRequest r) =
     (if request_has_media h (CompletionRequest r)
      then Inl (AssertionError ''Ollama does not support media for Completion requests'')
      else (case completion_request_to_prompt h r of
              Inl e \<Rightarrow> Inl e
            | Inr p \<Rightarrow> Inr (dict_set (dict_set [] ''prompt'' (PStr p)) ''raw'' (PBool True))))"

text \<open>Lines 210 to 216: the response format.\<close>

definition apply_response_format :: "response_format option \<Rightarrow> dict \<Rightarrow> error + dict" where
  "apply_response_format fmt input_dict =
     (case fmt of
        None \<Rightarrow> Inr input_dict
      | Some f \<Rightarrow>
          if type f = ''json_schema'' then Inr (dict_set input_dict ''format'' (json_schema f))
          else if type f = ''grammar''
          then Inl (NotImplementedError ''Grammar response format is not supported'')
          else Inl (ValueError (''Unknown response format type: '' @ type f)))"

definition get_params :: "host \<Rightarrow> request \<Rightarrow> error + dict" where
  "get_params h request =
     (let sampling_options = sampling_options_of h request
      in case input_dict_of h request of
           Inl e \<Rightarrow> Inl e
         | Inr d \<Rightarrow>
             (case apply_response_format (request_response_format request) d of
                Inl e \<Rightarrow> Inl e
              | Inr input_dict \<Rightarrow>
                  Inr (dict_display
                         ([(''model'', PStr (request_model request))] @ input_dict @
                          [(''options'', PDict sampling_options),
                           (''stream'', request_stream request)]))))"

subsection \<open>The completion and chat-completion paths\<close>

text \<open>
  Lines 144 to 150 (and 128 to 134 for a chunk): the choice built from a response of
  \<^verbatim>\<open>generate\<close>. The finish reason is read first, then the text.
\<close>

definition finish_reason_of :: "dict \<Rightarrow> error + pyval" where
  "finish_reason_of r =
     (case subscript r ''done'' of
        Inl e \<Rightarrow> Inl e
      | Inr d \<Rightarrow> if truthy d then subscript r ''done_reason'' else Inr PNone)"

definition completion_choice :: "dict \<Rightarrow> error + OpenAICompatCompletionResponse" where
  "completion_choice r =
     (case finish_reason_of r of
        Inl e \<Rightarrow> Inl e
      | Inr fr \<Rightarrow>
          (case subscript r ''response'' of
             Inl e \<Rightarrow> Inl e
           | Inr t \<Rightarrow> Inr \<lparr>choices = [\<lparr>finish_reason = fr, choice_text = t\<rparr>]\<rparr>))"

text \<open>Lines 235 to 247 (and 259 to 271): a chat response carries \<^verbatim>\<open>message\<close>.\<close>

definition chat_choice :: "dict \<Rightarrow> error + OpenAICompatCompletionResponse" where
  "chat_choice r =
     (if has_key ''message'' r
      then (case finish_reason_of r of
              Inl e \<Rightarrow> Inl e
            | Inr fr \<Rightarrow>
                (case subscript r ''message'' of
                   Inl e \<Rightarrow> Inl e
                 | Inr (PDict m) \<Rightarrow>
                     (case subscript m ''content'' of
                        Inl e \<Rightarrow> Inl e
                      | Inr t \<Rightarrow> Inr \<lparr>choices = [\<lparr>finish_reason = fr, choice_text = t\<rparr>]\<rparr>)
                 | Inr v \<Rightarrow> Inl (TypeError ''message is not subscriptable'')))
      else completion_choice r)"

text \<open>
  The inner generator \<^verbatim>\<open>_generate_and_convert_to_openai_compat\<close>, run to its end over
  the chunks of the transport: a chunk that cannot be converted ends it with the
  exception, and so does an exception of the transport's stream.
\<close>

fun convert_chunks ::
  "(dict \<Rightarrow> error + 'a) \<Rightarrow> dict list \<Rightarrow> error option \<Rightarrow> 'a generator" where
  "convert_chunks f [] err = ([], err)"
| "convert_chunks f (c # cs) err =
     (case f c of
        Inl e \<Rightarrow> ([], Some e)
      | Inr y \<Rightarrow> (case convert_chunks f cs err of (ys, e) \<Rightarrow> (y # ys, e)))"

definition generate_and_convert_to_openai_compat ::
  "(dict \<Rightarrow> error + 'a) \<Rightarrow> error + reply \<Rightarrow> 'a generator" where
  "generate_and_convert_to_openai_compat f s =
     (case s of
        Inl e \<Rightarrow> ([], Some e)
      | Inr (Response r) \<Rightarrow> ([], Some (TypeError ''async for requires an asynchronous iterator''))
      | Inr (ResponseStream cs err) \<Rightarrow> convert_chunks f cs err)"

text \<open>
  Each path takes the log of transport requests and returns it extended. A streaming
  path is an asynchronous generator: it is modelled run to its end, its consumer drawing
  from the inner generator, so that the transport request is issued once the parameters
  are built.
\<close>

definition nonstream_completion ::
  "host \<Rightarrow> PodmanAILabInferenceAdapter \<Rightarrow> completion_request \<Rightarrow> call list
     \<Rightarrow> (error + pyval) \<times> call list" where
  "nonstream_completion h self request log =
     (case get_params h (CompletionRequest request) of
        Inl e \<Rightarrow> (Inl e, log)
      | Inr params \<Rightarrow>
          (case client_generate h (url self) params of
             Inl e \<Rightarrow> (Inl e, log @ [GenerateCall (url self) params])
           | Inr (ResponseStream cs err) \<Rightarrow>
               (Inl (TypeError ''stream is not subscriptable''),
                log @ [GenerateCall (url self) params])
           | Inr (Response r) \<Rightarrow>
               (case completion_choice r of
                  Inl e \<Rightarrow> (Inl e, log @ [GenerateCall (url self) params])
                | Inr response \<Rightarrow>
                    (process_completion_response h response,
                     log @ [GenerateCall (url self) params]))))"

definition stream_completion ::
  "host \<Rightarrow> PodmanAILabInferenceAdapter \<Rightarrow> completion_request \<Rightarrow> call list
     \<Rightarrow> pyval generator \<times> call list" where
  "stream_completion h self request log =
     (case get_params h (CompletionRequest request) of
        Inl e \<Rightarrow> (([], Some e), log)
      | Inr params \<Rightarrow>
          (process_completion_stream_response h
             (generate_and_convert_to_openai_compat completion_choice
                (client_generate h (url self) params)),
           log @ [GenerateCall (url self) params]))"

text \<open>Lines 230 to 233 and 254 to 257: \<^verbatim>\<open>chat\<close> when the parameters hold messages.\<close>

definition chat_or_generate ::
  "host \<Rightarrow> PodmanAILabInferenceAdapter \<Rightarrow> dict \<Rightarrow> (error + reply) \<times> call" where
  "chat_or_generate h self params =
     (if has_key ''messages'' params
      then (client_chat h (url self) params, ChatCall (url self) params)
      else (client_generate h (url self) params, GenerateCall (url self) params))"

definition nonstream_chat_completion ::
  "host \<Rightarrow> PodmanAILabInferenceAdapter \<Rightarrow> chat_completion_request \<Rightarrow> call list
     \<Rightarrow> (error + pyval) \<times> call list" where
  "nonstream_chat_completion h self request log =
     (case get_params h (ChatCompletionRequest request) of
        Inl e \<Rightarrow> (Inl e, log)
      | Inr params \<Rightarrow>
          (case chat_or_generate h self params of
             (Inl e, c) \<Rightarrow> (Inl e, log @ [c])
           | (Inr (ResponseStream cs err), c) \<Rightarrow>
               (Inl (TypeError ''stream is not a container''), log @ [c])
           | (Inr (Response r), c) \<Rightarrow>
               (case chat_choice r of
                  Inl e \<Rightarrow> (Inl e, log @ [c])
                | Inr response \<Rightarrow>
                    (process_chat_completion_response h response request, log @ [c]))))"

definition stream_chat_completion ::
  "host \<Rightarrow> PodmanAILabInferenceAdapter \<Rightarrow> chat_completion_request \<Rightarrow> call list
     \<Rightarrow> pyval generator \<times> call list" where
  "stream_chat_completion h self request log =
     (case get_params h (ChatCompletionRequest request) of
        Inl e \<Rightarrow> (([], Some e), log)
      | Inr params \<Rightarrow>
          (case chat_or_generate h self params of
             (s, c) \<Rightarrow>
               (process_chat_completion_stream_response h
                  (generate_and_convert_to_openai_compat chat_choice s) request,
                log @ [c])))"

section \<open>Media content and a sample host\<close>

text \<open>Content that holds an image item, and a request that holds such content.\<close>

fun item_has_media :: "content_item \<Rightarrow> bool" where
  "item_has_media (ImageContentItem img) = True"
| "item_has_media (TextContentItem t) = False"

fun content_has_media :: "interleaved_content \<Rightarrow> bool" where
  "content_has_media (ContentStr s) = False"
| "content_has_media (ContentItem c) = item_has_media c"
| "content_has_media (ContentList cs) = list_ex item_has_media cs"

fun media_in_request :: "request \<Rightarrow> bool" where
  "media_in_request (ChatCompletionRequest r) =
     list_ex (\<lambda>m. content_has_media (content m)) (messages r)"
| "media_in_request (CompletionRequest r) = content_has_media (raw_content r)"

text \<open>The number of wire entries a content stands for: one per item of a list, else one.\<close>

fun content_units :: "interleaved_content \<Rightarrow> nat" where
  "content_units (ContentList cs) = length cs"
| "content_units c = 1"

text \<open>The texts of a content, concatenated (images count as empty).\<close>

fun item_text :: "content_item \<Rightarrow> string" where
  "item_text (TextContentItem t) = t"
| "item_text (ImageContentItem img) = []"

fun content_text :: "interleaved_content \<Rightarrow> string" where
  "content_text (ContentStr s) = s"
| "content_text (ContentItem c) = item_text c"
| "content_text (ContentList cs) = concat (map item_text cs)"

text \<open>
  The wire entries expected of a message that holds only text: one dictionary per
  content unit, in order, with the role of the message and the text of the unit.
\<close>

fun content_texts :: "interleaved_content \<Rightarrow> string list" where
  "content_texts (ContentStr s) = [s]"
| "content_texts (ContentItem c) = [item_text c]"
| "content_texts (ContentList cs) = map item_text cs"

definition expected_text_entries :: "message \<Rightarrow> pyval list" where
  "expected_text_entries m =
     map (\<lambda>t. PDict [(''role'', PStr (role m)), (''content'', PStr t)]) (content_texts (content m))"

text \<open>
  A host and a transport to run the adapter on concrete requests: the sampling
  parameters are the options themselves, media is an image item, a prompt is the
  concatenated text, an image is its URL, the transport is reachable at one URL only
  and answers every request with the same text.
\<close>

definition sample_response :: dict where
  "sample_response =
     [(''done'', PBool True), (''done_reason'', PStr ''stop''), (''response'', PStr ''ok'')]"

definition first_choice :: "OpenAICompatCompletionResponse \<Rightarrow> pyval" where
  "first_choice r =
     (case choices r of
        [] \<Rightarrow> PNone
      | c # cs \<Rightarrow> PDict [(''content'', choice_text c), (''stop_reason'', finish_reason c)])"

definition sample_host :: host where
  "sample_host =
     \<lparr>get_sampling_options = (\<lambda>sp. case sp of PDict d \<Rightarrow> d | _ \<Rightarrow> []),
      request_has_media = media_in_request,
      chat_completion_request_to_prompt =
        (\<lambda>r m. Inr (concat (map (\<lambda>msg. content_text (content msg)) (messages r)))),
      completion_request_to_prompt = (\<lambda>r. Inr (content_text (raw_content r))),
      convert_image_content_to_url =
        (\<lambda>img download include_format.
           case img of PStr u \<Rightarrow> Inr u | _ \<Rightarrow> Inl (ValueError ''no image URL'')),
      process_completion_response = (\<lambda>r. Inr (first_choice r)),
      process_completion_stream_response = (\<lambda>(rs, e). (map first_choice rs, e)),
      process_chat_completion_response = (\<lambda>r request. Inr (first_choice r)),
      process_chat_completion_stream_response = (\<lambda>(rs, e) request. (map first_choice rs, e)),
      client_list =
        (\<lambda>u. if u = ''http://localhost:10434'' then Inr (PDict [])
             else Inl (ConnectionError ''connection refused'')),
      client_generate =
        (\<lambda>u params.
           if map_of params ''stream'' = Some (PBool True)
           then Inr (ResponseStream [sample_response] None)
           else Inr (Response sample_response)),
      client_chat =
        (\<lambda>u params.
           if map_of params ''stream'' = Some (PBool True)
           then Inr (ResponseStream [sample_response] None)
           else Inr (Response sample_response))\<rparr>"

section \<open>Dispatch and outcomes\<close>

text \<open>
  The last lines of \<^verbatim>\<open>completion\<close> and \<^verbatim>\<open>chat_completion\<close>: the streaming path when the
  flag is true, else the awaited path. An outcome is a returned value or exception, or
  the generator of the streaming path.
\<close>

datatype outcome = Returned "error + pyval" | Streamed "pyval generator"

fun dispatch ::
  "host \<Rightarrow> PodmanAILabInferenceAdapter \<Rightarrow> request \<Rightarrow> call list \<Rightarrow> outcome \<times> call list" where
  "dispatch h self (CompletionRequest r) log =
     (if stream r = Some True
      then (case stream_completion h self r log of (g, l) \<Rightarrow> (Streamed g, l))
      else (case nonstream_completion h self r log of (x, l) \<Rightarrow> (Returned x, l)))"
| "dispatch h self (ChatCompletionRequest r) log =
     (if stream r = Some True
      then (case stream_chat_completion h self r log of (g, l) \<Rightarrow> (Streamed g, l))
      else (case nonstream_chat_completion h self r log of (x, l) \<Rightarrow> (Returned x, l)))"

text \<open>The call ended with the exception and produced nothing: no value, no chunk.\<close>

fun raised :: "outcome \<Rightarrow> error \<Rightarrow> bool" where
  "raised (Returned x) e = (x = Inl e)"
| "raised (Streamed g) e = (g = ([], Some e))"

text \<open>A response format that \<^verbatim>\<open>_get_params\<close> lets through: none, or a JSON schema.\<close>

definition format_accepted :: "response_format option \<Rightarrow> bool" where
  "format_accepted fmt = (case fmt of None \<Rightarrow> True | Some f \<Rightarrow> type f = ''json_schema'')"

text \<open>The keyword arguments of a logged transport request.\<close>

fun call_params :: "call \<Rightarrow> dict" where
  "call_params (ListCall u) = []"
| "call_params (GenerateCall u params) = params"
| "call_params (ChatCall u params) = params"

section \<open>Sample requests and adapters\<close>

definition text_chat :: chat_completion_request where
  "text_chat =
     \<lparr>model = ''llama3'', sampling_params = PDict [(''max_tokens'', PInt 64)],
      response_format = None, stream = Some False,
      messages = [\<lparr>role = ''user'', content = ContentStr ''hello''\<rparr>]\<rparr>"

definition image_completion :: completion_request where
  "image_completion =
     \<lparr>model = ''llama3'', sampling_params = PDict [], response_format = None, stream = Some False,
      raw_content = ContentItem (ImageContentItem (PStr ''http://example.org/cat.png''))\<rparr>"

definition local_adapter :: PodmanAILabInferenceAdapter where
  "local_adapter = \<lparr>url = ''http://localhost:10434''\<rparr>"

definition remote_adapter :: PodmanAILabInferenceAdapter where
  "remote_adapter = \<lparr>url = ''http://localhost:1''\<rparr>"




definition two_part_chat :: chat_completion_request where
  "two_part_chat =
     \<lparr>model = [], sampling_params = PDict [], response_format = None, stream = Some False,
      messages = [\<lparr>role = ''user'',
                   content = ContentList [TextContentItem ''hello'', TextContentItem ''world'']\<rparr>]\<rparr>"

definition system_user_chat :: chat_completion_request where
  "system_user_chat =
     \<lparr>model = [], sampling_params = PDict [], response_format = None, stream = Some False,
      messages = [\<lparr>role = ''system'', content = ContentStr ''be brief''\<rparr>,
                  \<lparr>role = ''user'', content = ContentItem (TextContentItem ''hello'')\<rparr>]\<rparr>"


section \<open>Properties\<close>

subsection \<open>Embeddings\<close>

text \<open>
  Claim C10. Whatever the model id, the contents, the text truncation, the output
  dimension and the task type, \<^verbatim>\<open>embeddings\<close> raises the not-implemented error and
  returns no result.
\<close>

theorem embeddings_always_fails:
  "embeddings self model_id contents text_truncation output_dimension task_type =
     Inl (NotImplementedError ''embeddings endpoint is not implemented'')
   \<and> (\<nexists>r. embeddings self model_id contents text_truncation output_dimension task_type = Inr r)"
  by (simp add: embeddings_def)

subsection \<open>Dictionaries and the parameters built\<close>

lemma map_of_foldl_dict_set:
  "map_of (foldl (\<lambda>d (k, v). dict_set d k v) d0 items) = map_of d0 ++ map_of (rev items)"
  by (induction items arbitrary: d0) (auto simp: dict_set_def update_conv' fun_eq_iff map_add_def split: option.splits)

lemma map_of_dict_display: "map_of (dict_display items) = map_of (rev items)"
  by (simp add: dict_display_def map_of_foldl_dict_set)

lemma has_key_map_of: "has_key k d \<longleftrightarrow> map_of d k \<noteq> None"
  by (simp add: has_key_def map_of_eq_None_iff)

lemma map_of_dict_set: "map_of (dict_set d k v) = (map_of d)(k \<mapsto> v)"
  by (simp add: dict_set_def update_conv')

lemma get_params_Inr:
  assumes "get_params h req = Inr params"
  obtains d input_dict where "input_dict_of h req = Inr d"
    and "apply_response_format (request_response_format req) d = Inr input_dict"
    and "params = dict_display ([(''model'', PStr (request_model req))] @ input_dict @
            [(''options'', PDict (sampling_options_of h req)), (''stream'', request_stream req)])"
  using assms by (auto simp: get_params_def Let_def split: sum.splits)

lemma get_params_options:
  assumes "get_params h req = Inr params"
  shows "map_of params ''options'' = Some (PDict (sampling_options_of h req))"
  using assms by (elim get_params_Inr) (simp add: map_of_dict_display)

lemma map_of_rev_distinct: "distinct (map fst xs) \<Longrightarrow> map_of (rev xs) = map_of xs"
proof (induction xs)
  case Nil
  then show ?case by simp
next
  case (Cons x xs)
  then have "map_of xs (fst x) = None"
    by (simp add: map_of_eq_None_iff)
  with Cons show ?case
    by (auto simp: fun_eq_iff map_add_def split: option.splits)
qed

lemma input_dict_of_distinct:
  "input_dict_of h req = Inr d \<Longrightarrow> distinct (map fst d)"
  by (cases req) (auto simp: dict_set_def split: if_splits sum.splits)

lemma apply_response_format_distinct:
  "apply_response_format fmt d = Inr input_dict \<Longrightarrow> distinct (map fst d) \<Longrightarrow> distinct (map fst input_dict)"
  by (auto simp: apply_response_format_def dict_set_def distinct_update split: option.splits if_splits)

lemma apply_response_format_key:
  assumes "apply_response_format fmt d = Inr input_dict" and "k \<noteq> ''format''"
  shows "map_of input_dict k = map_of d k"
  using assms
  by (auto simp: apply_response_format_def map_of_dict_set split: option.splits if_splits)

lemma get_params_input_key:
  assumes "get_params h req = Inr params" and "input_dict_of h req = Inr d"
    and "k \<noteq> ''options''" and "k \<noteq> ''stream''" and "k \<noteq> ''model''" and "k \<noteq> ''format''"
  shows "map_of params k = map_of d k"
proof -
  from assms(1,2) obtain input_dict
    where b: "apply_response_format (request_response_format req) d = Inr input_dict"
      and c: "params = dict_display ([(''model'', PStr (request_model req))] @ input_dict @
            [(''options'', PDict (sampling_options_of h req)), (''stream'', request_stream req)])"
    by (auto elim: get_params_Inr)
  have "distinct (map fst input_dict)"
    using assms(2) b by (blast intro: input_dict_of_distinct apply_response_format_distinct)
  then have "map_of (rev input_dict) = map_of input_dict"
    by (simp add: map_of_rev_distinct)
  then have "map_of params k = map_of input_dict k"
    using assms(3-5) c by (auto simp: map_of_dict_display map_add_def split: option.splits)
  then show ?thesis
    using b assms(6) by (simp add: apply_response_format_key)
qed

lemma input_dict_of_chat_prompt:
  assumes "\<not> request_has_media h (ChatCompletionRequest r)" and "model r \<noteq> []"
  shows "input_dict_of h (ChatCompletionRequest r) =
     (case chat_completion_request_to_prompt h r (model r) of
        Inl e \<Rightarrow> Inl e
      | Inr p \<Rightarrow> Inr [(''raw'', PBool True), (''prompt'', PStr p)])"
  using assms by (simp add: dict_set_def split: sum.splits)

lemma apply_response_format_accepted:
  "format_accepted fmt \<Longrightarrow> \<exists>input_dict. apply_response_format fmt d = Inr input_dict"
  by (auto simp: format_accepted_def apply_response_format_def split: option.splits)

lemma get_params_returns:
  assumes "input_dict_of h req = Inr d" and "format_accepted (request_response_format req)"
  shows "\<exists>params. get_params h req = Inr params"
  using assms apply_response_format_accepted [of "request_response_format req" d]
  by (auto simp: get_params_def Let_def)

text \<open>
  Claim C2. For a chat request for which the host reports no media and whose model name
  is not empty, the wire parameters that \<^verbatim>\<open>_get_params\<close> builds hold \<^verbatim>\<open>raw\<close> true and the
  flattened prompt of the host under \<^verbatim>\<open>prompt\<close>, and no \<^verbatim>\<open>messages\<close>; and they are
  built whenever the prompt is and the response format is none or a JSON schema.
\<close>

theorem chat_text_request_raw_prompt:
  assumes "\<not> request_has_media h (ChatCompletionRequest r)" and "model r \<noteq> []"
  shows "(\<forall>params. get_params h (ChatCompletionRequest r) = Inr params \<longrightarrow>
            map_of params ''raw'' = Some (PBool True)
          \<and> (\<exists>p. chat_completion_request_to_prompt h r (model r) = Inr p
                 \<and> map_of params ''prompt'' = Some (PStr p))
          \<and> \<not> has_key ''messages'' params)
       \<and> (\<forall>p. chat_completion_request_to_prompt h r (model r) = Inr p
              \<and> format_accepted (response_format r) \<longrightarrow>
              (\<exists>params. get_params h (ChatCompletionRequest r) = Inr params))"
proof (intro conjI allI impI)
  fix params
  assume g: "get_params h (ChatCompletionRequest r) = Inr params"
  from g obtain d where d: "input_dict_of h (ChatCompletionRequest r) = Inr d"
    by (rule get_params_Inr)
  then obtain p where p: "chat_completion_request_to_prompt h r (model r) = Inr p"
    and d': "d = [(''raw'', PBool True), (''prompt'', PStr p)]"
    unfolding input_dict_of_chat_prompt [OF assms] by (auto split: sum.splits)
  note look = get_params_input_key [OF g d]
  show "map_of params ''raw'' = Some (PBool True)"
    by (simp add: look d')
  show "\<exists>p. chat_completion_request_to_prompt h r (model r) = Inr p
           \<and> map_of params ''prompt'' = Some (PStr p)"
    using p by (simp add: look d')
  show "\<not> has_key ''messages'' params"
    by (simp add: has_key_map_of look d')
next
  fix p
  assume "chat_completion_request_to_prompt h r (model r) = Inr p
          \<and> format_accepted (response_format r)"
  then show "\<exists>params. get_params h (ChatCompletionRequest r) = Inr params"
    using input_dict_of_chat_prompt [OF assms]
    by (intro get_params_returns [where d = "[(''raw'', PBool True), (''prompt'', PStr p)]"]) auto
qed

lemma text_chat_params:
  "get_params sample_host (ChatCompletionRequest text_chat) =
     Inr [(''model'', PStr ''llama3''), (''raw'', PBool True), (''prompt'', PStr ''hello''),
          (''options'', PDict [(''max_tokens'', PInt 64), (''num_predict'', PInt 64)]),
          (''stream'', PBool False)]"
  by (simp add: get_params_def text_chat_def sample_host_def sampling_options_of_def py_get_def
      dict_set_def dict_display_def apply_response_format_def)

theorem chat_text_request_raw_prompt_witness:
  "\<not> request_has_media sample_host (ChatCompletionRequest text_chat)
   \<and> model text_chat \<noteq> []
   \<and> chat_completion_request_to_prompt sample_host text_chat (model text_chat) = Inr ''hello''
   \<and> format_accepted (response_format text_chat)
   \<and> (\<exists>params. get_params sample_host (ChatCompletionRequest text_chat) = Inr params
         \<and> map_of params ''raw'' = Some (PBool True)
         \<and> map_of params ''prompt'' = Some (PStr ''hello'')
         \<and> \<not> has_key ''messages'' params)"
proof -
  have a: "\<not> request_has_media sample_host (ChatCompletionRequest text_chat)"
    by (simp add: sample_host_def text_chat_def)
  have b: "model text_chat \<noteq> []"
    by (simp add: text_chat_def)
  have c: "chat_completion_request_to_prompt sample_host text_chat (model text_chat) = Inr ''hello''"
    by (simp add: sample_host_def text_chat_def)
  have d: "format_accepted (response_format text_chat)"
    by (simp add: format_accepted_def text_chat_def)
  from chat_text_request_raw_prompt [OF a b] c d
  obtain params where e: "get_params sample_host (ChatCompletionRequest text_chat) = Inr params"
    by blast
  with chat_text_request_raw_prompt [OF a b] c
  have "map_of params ''raw'' = Some (PBool True) \<and> map_of params ''prompt'' = Some (PStr ''hello'')
        \<and> \<not> has_key ''messages'' params"
    by auto
  with a b c d e show ?thesis by blast
qed

subsection \<open>What reaches the transport\<close>

lemma dispatch_passes_params:
  assumes "get_params h req = Inr params"
  shows "\<exists>c. snd (dispatch h self req log) = log @ [c] \<and> call_params c = params"
  using assms
  by (cases req)
     (auto simp: nonstream_completion_def stream_completion_def nonstream_chat_completion_def
        stream_chat_completion_def chat_or_generate_def
        split: sum.splits reply.splits prod.splits)

lemma dispatch_raises:
  assumes "get_params h req = Inl e"
  shows "snd (dispatch h self req log) = log \<and> raised (fst (dispatch h self req log)) e"
  using assms
  by (cases req)
     (auto simp: nonstream_completion_def stream_completion_def nonstream_chat_completion_def
        stream_chat_completion_def)

subsection \<open>Sampling options\<close>

lemma sampling_options_num_predict:
  assumes "map_of (get_sampling_options h (request_sampling_params req)) ''max_tokens'' = Some v"
    and "v \<noteq> PNone"
  shows "map_of (sampling_options_of h req) =
           (map_of (get_sampling_options h (request_sampling_params req)))(''num_predict'' \<mapsto> v)"
  using assms by (simp add: sampling_options_of_def Let_def py_get_def map_of_dict_set)

text \<open>
  Claim C3. When the sampling options the host translates from the request hold a value
  for \<^verbatim>\<open>max_tokens\<close>, the options of the wire parameters hold that value under
  \<^verbatim>\<open>num_predict\<close>, and these wire parameters are the ones of the one request sent to
  the transport.
\<close>

theorem max_tokens_sets_num_predict:
  assumes "map_of (get_sampling_options h (request_sampling_params req)) ''max_tokens'' = Some v"
    and "v \<noteq> PNone"
    and "get_params h req = Inr params"
  shows "(\<exists>options. map_of params ''options'' = Some (PDict options)
            \<and> map_of options ''num_predict'' = Some v)
       \<and> (\<exists>c. snd (dispatch h self req log) = log @ [c] \<and> call_params c = params)"
  using get_params_options [OF assms(3)] sampling_options_num_predict [OF assms(1,2)]
    dispatch_passes_params [OF assms(3)]
  by simp

theorem max_tokens_sets_num_predict_witness:
  "map_of (get_sampling_options sample_host (request_sampling_params (ChatCompletionRequest text_chat)))
     ''max_tokens'' = Some (PInt 64)
   \<and> PInt 64 \<noteq> PNone
   \<and> (\<exists>params options. get_params sample_host (ChatCompletionRequest text_chat) = Inr params
         \<and> map_of params ''options'' = Some (PDict options)
         \<and> map_of options ''num_predict'' = Some (PInt 64))"
proof -
  have a: "map_of (get_sampling_options sample_host
             (request_sampling_params (ChatCompletionRequest text_chat))) ''max_tokens'' = Some (PInt 64)"
    by (simp add: sample_host_def text_chat_def)
  have b: "PInt 64 \<noteq> PNone" by simp
  note c = text_chat_params
  from max_tokens_sets_num_predict [OF a b c] a b c show ?thesis by blast
qed

text \<open>
  Claim C4, as stated, fails: with \<^verbatim>\<open>max_tokens\<close> 64 the options sent still hold the key
  \<^verbatim>\<open>max_tokens\<close>.
\<close>

theorem max_tokens_removed_counterexample:
  "map_of (get_sampling_options sample_host (request_sampling_params (ChatCompletionRequest text_chat)))
     ''max_tokens'' = Some (PInt 64)
   \<and> get_params sample_host (ChatCompletionRequest text_chat) =
       Inr [(''model'', PStr ''llama3''), (''raw'', PBool True), (''prompt'', PStr ''hello''),
            (''options'', PDict [(''max_tokens'', PInt 64), (''num_predict'', PInt 64)]),
            (''stream'', PBool False)]
   \<and> has_key ''max_tokens'' [(''max_tokens'', PInt 64), (''num_predict'', PInt 64)]"
  by (simp add: text_chat_params has_key_def) (simp add: sample_host_def text_chat_def)

text \<open>
  Claim C4, amended. When the sampling options hold a value for \<^verbatim>\<open>max_tokens\<close>, the wire
  options hold that value under \<^verbatim>\<open>num_predict\<close> and keep it under \<^verbatim>\<open>max_tokens\<close>; every
  other key is as the host gave it.
\<close>

theorem max_tokens_kept_beside_num_predict:
  assumes "map_of (get_sampling_options h (request_sampling_params req)) ''max_tokens'' = Some v"
    and "v \<noteq> PNone"
    and "get_params h req = Inr params"
  shows "\<exists>options. map_of params ''options'' = Some (PDict options)
           \<and> map_of options ''num_predict'' = Some v
           \<and> map_of options ''max_tokens'' = Some v
           \<and> (\<forall>k. k \<noteq> ''num_predict'' \<longrightarrow>
                  map_of options k = map_of (get_sampling_options h (request_sampling_params req)) k)"
  using get_params_options [OF assms(3)] sampling_options_num_predict [OF assms(1,2)] assms(1)
  by simp

theorem max_tokens_kept_beside_num_predict_witness:
  "map_of (get_sampling_options sample_host (request_sampling_params (ChatCompletionRequest text_chat)))
     ''max_tokens'' = Some (PInt 64)
   \<and> PInt 64 \<noteq> PNone
   \<and> (\<exists>params options. get_params sample_host (ChatCompletionRequest text_chat) = Inr params
         \<and> map_of params ''options'' = Some (PDict options)
         \<and> map_of options ''num_predict'' = Some (PInt 64)
         \<and> map_of options ''max_tokens'' = Some (PInt 64))"
proof -
  have a: "map_of (get_sampling_options sample_host
             (request_sampling_params (ChatCompletionRequest text_chat))) ''max_tokens'' = Some (PInt 64)"
    by (simp add: sample_host_def text_chat_def)
  have b: "PInt 64 \<noteq> PNone" by simp
  note c = text_chat_params
  from max_tokens_kept_beside_num_predict [OF a b c] a b c show ?thesis by blast
qed

subsection \<open>Prompt or messages\<close>

text \<open>
  Claim C5. Whenever \<^verbatim>\<open>_get_params\<close> returns wire parameters, for a completion or a chat
  request, exactly one of the keys \<^verbatim>\<open>prompt\<close> and \<^verbatim>\<open>messages\<close> is in them.
\<close>

theorem exactly_one_of_prompt_and_messages:
  assumes "get_params h req = Inr params"
  shows "has_key ''prompt'' params \<noteq> has_key ''messages'' params"
proof -
  from assms obtain d where d: "input_dict_of h req = Inr d"
    by (rule get_params_Inr)
  note look = get_params_input_key [OF assms d]
  from d have "(map_of d ''prompt'' \<noteq> None) \<noteq> (map_of d ''messages'' \<noteq> None)"
    by (cases req) (auto simp: map_of_dict_set split: if_splits sum.splits)
  then show ?thesis
    by (simp add: has_key_map_of look)
qed

theorem exactly_one_of_prompt_and_messages_witness:
  "\<exists>params. get_params sample_host (ChatCompletionRequest text_chat) = Inr params
     \<and> has_key ''prompt'' params \<noteq> has_key ''messages'' params"
  using exactly_one_of_prompt_and_messages [OF text_chat_params] text_chat_params
  by blast

subsection \<open>Media in a raw completion\<close>

text \<open>
  Claim C7. A completion request for which the host reports media fails while the
  parameters are built, with the assertion error of line 206: no request reaches the
  transport, and the call produces no value and no chunk, streaming or not.
\<close>

theorem completion_with_media_fails:
  assumes "request_has_media h (CompletionRequest r)"
  shows "get_params h (CompletionRequest r) =
           Inl (AssertionError ''Ollama does not support media for Completion requests'')
       \<and> snd (dispatch h self (CompletionRequest r) log) = log
       \<and> raised (fst (dispatch h self (CompletionRequest r) log))
            (AssertionError ''Ollama does not support media for Completion requests'')"
proof -
  have "get_params h (CompletionRequest r) =
          Inl (AssertionError ''Ollama does not support media for Completion requests'')"
    using assms by (simp add: get_params_def)
  then show ?thesis
    using dispatch_raises [of h "CompletionRequest r" _ self log] by blast
qed

theorem completion_with_media_fails_witness:
  "request_has_media sample_host (CompletionRequest image_completion)
   \<and> get_params sample_host (CompletionRequest image_completion) =
           Inl (AssertionError ''Ollama does not support media for Completion requests'')
   \<and> dispatch sample_host local_adapter (CompletionRequest image_completion) [] =
        (Returned (Inl (AssertionError ''Ollama does not support media for Completion requests'')), [])"
proof -
  have a: "request_has_media sample_host (CompletionRequest image_completion)"
    by (simp add: sample_host_def image_completion_def)
  have b: "stream image_completion \<noteq> Some True"
    by (simp add: image_completion_def)
  from completion_with_media_fails [OF a, of local_adapter "[]"] a b show ?thesis
    by (auto split: prod.splits)
qed

subsection \<open>Initialization\<close>

text \<open>
  Claim C8. \<^verbatim>\<open>initialize\<close> issues exactly one request to the transport, the \<^verbatim>\<open>list\<close> probe
  at the configured URL; when the probe raises a connection error, \<^verbatim>\<open>initialize\<close> raises the
  runtime error that tells the operator to start the server, and does not return.
\<close>

theorem initialize_probes_once:
  "snd (initialize h self log) = log @ [ListCall (url self)]
   \<and> (\<forall>m. client_list h (url self) = Inl (ConnectionError m) \<longrightarrow>
          fst (initialize h self log) =
            Inl (RuntimeError ''Podman AI Lab Server is not running, start it using Podman Desktop''))"
  by (auto simp: initialize_def split: sum.splits error.splits)

theorem initialize_probes_once_witness:
  "client_list sample_host (url remote_adapter) = Inl (ConnectionError ''connection refused'')
   \<and> initialize sample_host remote_adapter [] =
       (Inl (RuntimeError ''Podman AI Lab Server is not running, start it using Podman Desktop''),
        [ListCall ''http://localhost:1''])"
proof -
  have a: "client_list sample_host (url remote_adapter) = Inl (ConnectionError ''connection refused'')"
    by (simp add: sample_host_def remote_adapter_def)
  have b: "url remote_adapter = ''http://localhost:1''"
    by (simp add: remote_adapter_def)
  from initialize_probes_once [of sample_host remote_adapter "[]"] a b show ?thesis
    by (simp add: prod_eq_iff)
qed

subsection \<open>Response formats\<close>






subsection \<open>Text-only chat requests\<close>

lemma dict_display_pair:
  "k1 \<noteq> k2 \<Longrightarrow> dict_display [(k1, v1), (k2, v2)] = [(k1, v1), (k2, v2)]"
  by (simp add: dict_display_def dict_set_def)

lemma traverse_map:
  "\<forall>x\<in>set xs. f x = Inr (g x) \<Longrightarrow> traverse f xs = Inr (map g xs)"
  by (induction xs) auto

lemma convert_text_item:
  "\<not> item_has_media c \<Longrightarrow>
     convert_content h m (ContentItem c) =
       Inr (PDict [(''role'', PStr (role m)), (''content'', PStr (item_text c))])"
  by (cases c) (auto simp: dict_display_pair)

lemma convert_message_expected:
  assumes "\<not> content_has_media (content m)"
  shows "convert_message_to_openai_dict_for_podman_ai_lab h m = Inr (expected_text_entries m)"
proof (cases "content m")
  case (ContentStr s)
  then show ?thesis
    by (simp add: convert_message_to_openai_dict_for_podman_ai_lab_def expected_text_entries_def
        dict_display_pair)
next
  case (ContentItem c)
  with assms show ?thesis
    by (simp add: convert_message_to_openai_dict_for_podman_ai_lab_def expected_text_entries_def
        convert_text_item)
next
  case (ContentList cs)
  with assms have "\<forall>c\<in>set cs. convert_content h m (ContentItem c) =
      Inr (PDict [(''role'', PStr (role m)), (''content'', PStr (item_text c))])"
    by (auto simp: list_ex_iff intro: convert_text_item)
  then have "traverse (\<lambda>c. convert_content h m (ContentItem c)) cs =
      Inr (map (\<lambda>c. PDict [(''role'', PStr (role m)), (''content'', PStr (item_text c))]) cs)"
    by (rule traverse_map)
  with ContentList show ?thesis
    by (simp add: convert_message_to_openai_dict_for_podman_ai_lab_def expected_text_entries_def
        comp_def)
qed

lemma length_expected_text_entries:
  "length (expected_text_entries m) = content_units (content m)"
  by (cases "content m") (simp_all add: expected_text_entries_def)

lemma expected_text_entries_single:
  assumes "\<forall>m\<in>set ms. content_units (content m) = 1"
  shows "list_all2 (\<lambda>m e. \<exists>t. e = PDict [(''role'', PStr (role m)), (''content'', PStr t)])
           ms (concat (map expected_text_entries ms))"
  using assms
proof (induction ms)
  case Nil
  then show ?case by simp
next
  case (Cons m ms)
  from Cons.prems have "length (content_texts (content m)) = 1"
    by (cases "content m") simp_all
  then obtain t where "content_texts (content m) = [t]"
    by (cases "content_texts (content m)") auto
  with Cons show ?case
    by (simp add: expected_text_entries_def)
qed

lemma two_part_chat_params:
  "get_params sample_host (ChatCompletionRequest two_part_chat) =
     Inr [(''model'', PStr []),
          (''messages'',
           PList [PDict [(''role'', PStr ''user''), (''content'', PStr ''hello'')],
                  PDict [(''role'', PStr ''user''), (''content'', PStr ''world'')]]),
          (''options'', PDict []), (''stream'', PBool False)]"
  by (simp add: get_params_def two_part_chat_def sample_host_def sampling_options_of_def py_get_def
      dict_set_def dict_display_def apply_response_format_def
      convert_message_to_openai_dict_for_podman_ai_lab_def)

text \<open>
  Claim C1, as stated, fails twice. A chat request with one text message and the model
  name \<^verbatim>\<open>llama3\<close> gets \<^verbatim>\<open>prompt\<close> and no \<^verbatim>\<open>messages\<close>; and with an empty model name, one
  message whose content is a list of two texts gets two entries.
\<close>

theorem text_chat_messages_counterexample:
  "\<not> media_in_request (ChatCompletionRequest text_chat)
   \<and> get_params sample_host (ChatCompletionRequest text_chat) =
       Inr [(''model'', PStr ''llama3''), (''raw'', PBool True), (''prompt'', PStr ''hello''),
            (''options'', PDict [(''max_tokens'', PInt 64), (''num_predict'', PInt 64)]),
            (''stream'', PBool False)]
   \<and> \<not> has_key ''messages''
         [(''model'', PStr ''llama3''), (''raw'', PBool True), (''prompt'', PStr ''hello''),
          (''options'', PDict [(''max_tokens'', PInt 64), (''num_predict'', PInt 64)]),
          (''stream'', PBool False)]
   \<and> \<not> media_in_request (ChatCompletionRequest two_part_chat)
   \<and> length (messages two_part_chat) = 1
   \<and> get_params sample_host (ChatCompletionRequest two_part_chat) =
       Inr [(''model'', PStr []),
            (''messages'',
             PList [PDict [(''role'', PStr ''user''), (''content'', PStr ''hello'')],
                    PDict [(''role'', PStr ''user''), (''content'', PStr ''world'')]]),
            (''options'', PDict []), (''stream'', PBool False)]"
  by (simp add: text_chat_params two_part_chat_params has_key_def)
     (simp add: text_chat_def two_part_chat_def)

text \<open>
  Claim C1, amended. For a chat request whose messages hold only text and whose model
  name is empty, the wire parameters hold no \<^verbatim>\<open>prompt\<close> and a \<^verbatim>\<open>messages\<close> list that is, in
  the order of the messages, the entries of each message: one entry per content unit of
  the message, each a dictionary of the \<^verbatim>\<open>role\<close> of that message and a \<^verbatim>\<open>content\<close> string.
  When every content is a string or a single item, the list has one entry per message,
  the entry of a message carrying its role. The parameters are built whenever the
  response format is none or a JSON schema.
\<close>

theorem text_chat_without_model_uses_messages:
  assumes "\<forall>m\<in>set (messages r). \<not> content_has_media (content m)" and "model r = []"
  shows "(\<forall>params. get_params h (ChatCompletionRequest r) = Inr params \<longrightarrow>
            \<not> has_key ''prompt'' params
          \<and> map_of params ''messages'' =
              Some (PList (concat (map expected_text_entries (messages r)))))
       \<and> (\<forall>m\<in>set (messages r).
            length (expected_text_entries m) = content_units (content m)
          \<and> (\<forall>e\<in>set (expected_text_entries m). \<exists>t.
                 e = PDict [(''role'', PStr (role m)), (''content'', PStr t)]))
       \<and> ((\<forall>m\<in>set (messages r). content_units (content m) = 1) \<longrightarrow>
            list_all2 (\<lambda>m e. \<exists>t. e = PDict [(''role'', PStr (role m)), (''content'', PStr t)])
              (messages r) (concat (map expected_text_entries (messages r))))
       \<and> (format_accepted (response_format r) \<longrightarrow>
            (\<exists>params. get_params h (ChatCompletionRequest r) = Inr params))"
proof -
  have "\<forall>m\<in>set (messages r). convert_message_to_openai_dict_for_podman_ai_lab h m =
          Inr (expected_text_entries m)"
    using assms(1) by (simp add: convert_message_expected)
  then have "traverse (convert_message_to_openai_dict_for_podman_ai_lab h) (messages r) =
          Inr (map expected_text_entries (messages r))"
    by (rule traverse_map)
  then have d: "input_dict_of h (ChatCompletionRequest r) =
          Inr [(''messages'', PList (concat (map expected_text_entries (messages r))))]"
    using assms(2) by (simp add: dict_set_def)
  show ?thesis
  proof (intro conjI allI impI ballI)
    fix params
    assume g: "get_params h (ChatCompletionRequest r) = Inr params"
    note look = get_params_input_key [OF g d]
    show "\<not> has_key ''prompt'' params"
      by (simp add: has_key_map_of look)
    show "map_of params ''messages'' =
            Some (PList (concat (map expected_text_entries (messages r))))"
      by (simp add: look)
  next
    fix m
    show "length (expected_text_entries m) = content_units (content m)"
      by (rule length_expected_text_entries)
  next
    fix m e
    assume "e \<in> set (expected_text_entries m)"
    then show "\<exists>t. e = PDict [(''role'', PStr (role m)), (''content'', PStr t)]"
      by (auto simp: expected_text_entries_def)
  next
    assume "\<forall>m\<in>set (messages r). content_units (content m) = 1"
    then show "list_all2 (\<lambda>m e. \<exists>t. e = PDict [(''role'', PStr (role m)), (''content'', PStr t)])
              (messages r) (concat (map expected_text_entries (messages r)))"
      by (rule expected_text_entries_single)
  next
    assume "format_accepted (response_format r)"
    then show "\<exists>params. get_params h (ChatCompletionRequest r) = Inr params"
      using d get_params_returns [of h "ChatCompletionRequest r"] by simp
  qed
qed

theorem text_chat_without_model_uses_messages_witness:
  "list_all (\<lambda>m. \<not> content_has_media (content m)) (messages system_user_chat)
   \<and> model system_user_chat = []
   \<and> list_all (\<lambda>m. content_units (content m) = 1) (messages system_user_chat)
   \<and> format_accepted (response_format system_user_chat)
   \<and> (\<exists>params. get_params sample_host (ChatCompletionRequest system_user_chat) = Inr params
         \<and> \<not> has_key ''prompt'' params
         \<and> map_of params ''messages'' =
             Some (PList [PDict [(''role'', PStr ''system''), (''content'', PStr ''be brief'')],
                          PDict [(''role'', PStr ''user''), (''content'', PStr ''hello'')]]))"
proof -
  have a: "\<forall>m\<in>set (messages system_user_chat). \<not> content_has_media (content m)"
    by (simp add: system_user_chat_def)
  have b: "model system_user_chat = []"
    by (simp add: system_user_chat_def)
  have c: "\<forall>m\<in>set (messages system_user_chat). content_units (content m) = 1"
    by (simp add: system_user_chat_def)
  have d: "format_accepted (response_format system_user_chat)"
    by (simp add: system_user_chat_def format_accepted_def)
  have e: "concat (map expected_text_entries (messages system_user_chat)) =
             [PDict [(''role'', PStr ''system''), (''content'', PStr ''be brief'')],
              PDict [(''role'', PStr ''user''), (''content'', PStr ''hello'')]]"
    by (simp add: system_user_chat_def expected_text_entries_def)
  from text_chat_without_model_uses_messages [OF a b, of sample_host] d
  obtain params where p: "get_params sample_host (ChatCompletionRequest system_user_chat) = Inr params"
    by blast
  with text_chat_without_model_uses_messages [OF a b, of sample_host] e
  have "\<not> has_key ''prompt'' params
      \<and> map_of params ''messages'' =
             Some (PList [PDict [(''role'', PStr ''system''), (''content'', PStr ''be brief'')],
                          PDict [(''role'', PStr ''user''), (''content'', PStr ''hello'')]])"
    by simp
  with a b c d p show ?thesis
    unfolding list_all_iff by blast
qed

subsection \<open>One response and a stream of one chunk\<close>

text \<open>
  Both completion paths build the choice with the same expressions. When the transport
  streams the single chunk \<open>r\<close>, the inner generator yields exactly the response that
  the awaited path builds from the response \<open>r\<close>; what the caller receives is then up
  to the two post-processing functions of the host.
\<close>

lemma convert_chunks_single:
  "completion_choice r = Inr c \<Longrightarrow>
     generate_and_convert_to_openai_compat completion_choice (Inr (ResponseStream [r] None)) =
       ([c], None)"
  by (simp add: generate_and_convert_to_openai_compat_def)

lemma completion_choice_fields:
  assumes "completion_choice r = Inr c"
  shows "\<exists>t fr. subscript r ''response'' = Inr t \<and> finish_reason_of r = Inr fr
           \<and> choices c = [\<lparr>finish_reason = fr, choice_text = t\<rparr>]"
  using assms by (auto simp: completion_choice_def split: sum.splits)

end
